theory Spec2Isabelle
  imports
    Complex_Main
    "HOL-Library.Product_Lexorder"
    "HOL-Library.List_Lexorder"
    "HOL-Library.Char_ord"
    "HOL-Library.AList"
    "HOL-Library.Multiset"
begin

section \<open>Host language: numbers and strings\<close>

text \<open>
  The controllers are JavaScript. A stored number is a double that is not \<open>NaN\<close> (the
  schemas type the numeric paths as \<open>Number\<close> with \<open>min\<close> validators); the result of
  \<open>Number(s)\<close> may be \<open>NaN\<close>. Finite doubles are taken as exact rationals.
  \<open>Number\<close> itself is a builtin of the host: every function below that calls it takes it
  as the argument \<open>num\<close>, and \<open>isNaN(s)\<close> on a string is \<open>num s = NaN\<close>.
\<close>

datatype xnum = NInf | Fin rat | PInf

datatype jsnum = NaN | Num xnum

fun xkey :: "xnum \<Rightarrow> nat \<times> rat" where
  "xkey NInf = (0, 0)"
| "xkey (Fin r) = (1, r)"
| "xkey PInf = (2, 0)"

definition x_le :: "xnum \<Rightarrow> xnum \<Rightarrow> bool" where
  "x_le a b = (xkey a \<le> xkey b)"

text \<open>\<open>a - b\<close> and \<open>a * b\<close> on doubles, with the IEEE cases for infinities and \<open>NaN\<close>.\<close>

fun x_neg :: "xnum \<Rightarrow> xnum" where
  "x_neg NInf = PInf"
| "x_neg PInf = NInf"
| "x_neg (Fin r) = Fin (- r)"

fun js_add :: "jsnum \<Rightarrow> jsnum \<Rightarrow> jsnum" where
  "js_add (Num (Fin a)) (Num (Fin b)) = Num (Fin (a + b))"
| "js_add (Num (Fin a)) (Num b) = Num b"
| "js_add (Num a) (Num (Fin b)) = Num a"
| "js_add (Num a) (Num b) = (if a = b then Num a else NaN)"
| "js_add _ _ = NaN"

fun js_sub :: "jsnum \<Rightarrow> jsnum \<Rightarrow> jsnum" where
  "js_sub a (Num b) = js_add a (Num (x_neg b))"
| "js_sub a NaN = NaN"

fun x_sgn :: "xnum \<Rightarrow> int" where
  "x_sgn NInf = - 1"
| "x_sgn PInf = 1"
| "x_sgn (Fin r) = (if r < 0 then - 1 else if r = 0 then 0 else 1)"

fun js_mul :: "jsnum \<Rightarrow> jsnum \<Rightarrow> jsnum" where
  "js_mul (Num (Fin a)) (Num (Fin b)) = Num (Fin (a * b))"
| "js_mul (Num a) (Num b) =
     (if x_sgn a * x_sgn b = 0 then NaN
      else if x_sgn a * x_sgn b < 0 then Num NInf else Num PInf)"
| "js_mul _ _ = NaN"

text \<open>\<open>s.split(c)\<close> for a one-character separator: always at least one segment.\<close>

fun split_on :: "char \<Rightarrow> string \<Rightarrow> string list" where
  "split_on c [] = [[]]"
| "split_on c (x # xs) =
     (if x = c then [] # split_on c xs
      else (case split_on c xs of
              [] \<Rightarrow> [[x]]
            | y # ys \<Rightarrow> (x # y) # ys))"

text \<open>
  The white-space class of a JavaScript regular expression (backslash s), on the code
  units below 256: tab, line feed, vertical tab, form feed, carriage return, space and
  the no-break space.
\<close>

definition is_space :: "char \<Rightarrow> bool" where
  "is_space c = (of_char c \<in> {9, 10, 11, 12, 13, 32, 160 :: nat})"

definition is_sep :: "char \<Rightarrow> bool" where
  "is_sep c = (c = CHR ''-'' \<or> is_space c)"

text \<open>
  The replacement text of the city filter: the six characters bracket, hyphen,
  backslash, s, bracket, question mark (an optional hyphen or white-space character).
\<close>

definition sep_class :: string where
  "sep_class = [CHR ''['', CHR ''-'', CHR 0x5C, CHR ''s'', CHR '']'', CHR ''?'']"

text \<open>
  \<^verbatim>\<open>value.replace(/[-\s]+/g, '[-\\s]?')\<close>: every maximal run of hyphens and
  white space becomes \<open>sep_class\<close>.
\<close>

function replace_seps :: "string \<Rightarrow> string" where
  "replace_seps [] = []"
| "replace_seps (x # xs) =
     (if is_sep x then sep_class @ replace_seps (dropWhile is_sep xs)
      else x # replace_seps xs)"
  by pat_completeness auto
termination
  by (relation "measure length") (auto simp: le_imp_less_Suc length_dropWhile_le)

text \<open>\<open>s.trim()\<close>: the string without its leading and trailing white space.\<close>

definition trim :: "string \<Rightarrow> string" where
  "trim s = rev (dropWhile is_space (rev (dropWhile is_space s)))"

section \<open>Data model\<close>

text \<open>
  A date is a UTC calendar timestamp: year, month (1 to 12), day of the month and the
  millisecond of the day; the lexicographic order of the components is the order of
  time. The server's local time zone is taken to be UTC.
\<close>

type_synonym date = "int \<times> nat \<times> nat \<times> nat"

datatype bson =
    VNull
  | VNum xnum
  | VStr string
  | VBool bool
  | VId string
  | VDate date
  | VIds "string list"

text \<open>
  The schema of \<^verbatim>\<open>FlatModel\<close>, with the two timestamps and the version key \<open>__v\<close>
  that the schema options add; \<open>f_extra\<close> holds any other stored path.
\<close>

record flat =
  f_id :: string
  adTitle :: string
  city :: string
  streetName :: string
  streetNumber :: xnum
  areaSize :: xnum
  hasAC :: bool
  yearBuilt :: xnum
  rentPrice :: xnum
  dateAvailable :: xnum
  image_url :: string
  image_public_id :: string
  owner :: string
  messages :: "string list"
  f_createdAt :: date
  f_updatedAt :: date
  f_v :: xnum
  f_extra :: "(string \<times> bson) list"

text \<open>The schema of \<^verbatim>\<open>UserModel\<close>; a missing or null \<open>addedFlats\<close> is \<open>None\<close>.\<close>

record user =
  u_id :: string
  firstName :: string
  lastName :: string
  birthDate :: date
  email :: string
  password :: string
  role :: string
  favoriteFlats :: "string list"
  addedFlats :: "string list option"
  u_createdAt :: date

record message =
  m_id :: string
  content :: string
  flatId :: string
  senderId :: string

record db =
  flats :: "flat list"
  users :: "user list"
  msgs :: "message list"

text \<open>Reading a path of a stored flat by its name, as a query does.\<close>

definition flat_fld :: "flat \<Rightarrow> string \<Rightarrow> bson option" where
  "flat_fld f k =
     (if k = ''_id'' then Some (VId (f_id f))
      else if k = ''adTitle'' then Some (VStr (adTitle f))
      else if k = ''city'' then Some (VStr (city f))
      else if k = ''streetName'' then Some (VStr (streetName f))
      else if k = ''streetNumber'' then Some (VNum (streetNumber f))
      else if k = ''areaSize'' then Some (VNum (areaSize f))
      else if k = ''hasAC'' then Some (VBool (hasAC f))
      else if k = ''yearBuilt'' then Some (VNum (yearBuilt f))
      else if k = ''rentPrice'' then Some (VNum (rentPrice f))
      else if k = ''dateAvailable'' then Some (VNum (dateAvailable f))
      else if k = ''image.url'' then Some (VStr (image_url f))
      else if k = ''image.public_id'' then Some (VStr (image_public_id f))
      else if k = ''owner'' then Some (VId (owner f))
      else if k = ''messages'' then Some (VIds (messages f))
      else if k = ''createdAt'' then Some (VDate (f_createdAt f))
      else if k = ''updatedAt'' then Some (VDate (f_updatedAt f))
      else if k = ''__v'' then Some (VNum (f_v f))
      else map_of (f_extra f) k)"

section \<open>The document store\<close>

text \<open>
  The store is the collaborator of the controllers: a filter, sort, skip and limit read,
  a filter-only count and a join. Its operators are given the meaning the query language
  documents: a comparison only matches a value of the same type, a regular expression
  only matches a string, a sort is by the type order and then by value, and a read with
  an invalid regular expression, an empty sort path, a skip that is not a non-negative
  integer or a limit that is not a positive integer fails. The query language does not
  say in which order a sort leaves documents that compare equal; \<open>sort_stage\<close> keeps
  their stored order, and a later section takes the sort stage as a parameter. The
  regular-expression engine is the argument \<open>rx\<close>: \<open>rx p\<close> is \<open>None\<close> when \<open>p\<close>
  does not compile and otherwise the case-insensitive search for \<open>p\<close> in a string.
\<close>

datatype cond =
    CIn "bson list"
  | CRange jsnum jsnum
  | CRegex string
  | CEq bson

definition in_range :: "xnum \<Rightarrow> jsnum \<Rightarrow> jsnum \<Rightarrow> bool" where
  "in_range n lo hi =
     (case lo of NaN \<Rightarrow> False
      | Num a \<Rightarrow> (case hi of NaN \<Rightarrow> False | Num b \<Rightarrow> x_le a n \<and> x_le n b))"

fun cond_ok :: "(string \<Rightarrow> (string \<Rightarrow> bool) option) \<Rightarrow> cond \<Rightarrow> bool" where
  "cond_ok rx (CRegex p) = (rx p \<noteq> None)"
| "cond_ok rx _ = True"

fun holds :: "(string \<Rightarrow> (string \<Rightarrow> bool) option) \<Rightarrow> cond \<Rightarrow> bson option \<Rightarrow> bool" where
  "holds rx (CEq v) x = (x = Some v)"
| "holds rx (CIn vs) x = (x \<in> set (map Some vs))"
| "holds rx (CRange lo hi) x =
     (case x of Some (VNum n) \<Rightarrow> in_range n lo hi | _ \<Rightarrow> False)"
| "holds rx (CRegex p) x =
     (case rx p of None \<Rightarrow> False
      | Some m \<Rightarrow> (case x of Some (VStr s) \<Rightarrow> m s | _ \<Rightarrow> False))"

definition matches ::
  "(string \<Rightarrow> (string \<Rightarrow> bool) option) \<Rightarrow> ('d \<Rightarrow> string \<Rightarrow> bson option) \<Rightarrow>
   (string \<times> cond) list \<Rightarrow> 'd \<Rightarrow> bool" where
  "matches rx fld flt d = list_all (\<lambda>kc. holds rx (snd kc) (fld d (fst kc))) flt"

definition filter_ok :: "(string \<Rightarrow> (string \<Rightarrow> bool) option) \<Rightarrow> (string \<times> cond) list \<Rightarrow> bool" where
  "filter_ok rx flt = list_all (\<lambda>kc. cond_ok rx (snd kc)) flt"

text \<open>The sort key of a value: the rank of its type, then the value.\<close>

type_synonym skey = "nat \<times> (nat \<times> rat) \<times> string \<times> bool \<times> date"

fun skey_of :: "bool \<Rightarrow> bson option \<Rightarrow> skey" where
  "skey_of asc None = (2, (0, 0), [], False, (0, 0, 0, 0))"
| "skey_of asc (Some VNull) = (2, (0, 0), [], False, (0, 0, 0, 0))"
| "skey_of asc (Some (VNum n)) = (3, xkey n, [], False, (0, 0, 0, 0))"
| "skey_of asc (Some (VStr s)) = (4, (0, 0), s, False, (0, 0, 0, 0))"
| "skey_of asc (Some (VId i)) = (8, (0, 0), i, False, (0, 0, 0, 0))"
| "skey_of asc (Some (VBool b)) = (9, (0, 0), [], b, (0, 0, 0, 0))"
| "skey_of asc (Some (VDate t)) = (10, (0, 0), [], False, t)"
| "skey_of asc (Some (VIds [])) = (1, (0, 0), [], False, (0, 0, 0, 0))"
| "skey_of asc (Some (VIds (i # is))) =
     (8, (0, 0), (if asc then Min (set (i # is)) else Max (set (i # is))), False, (0, 0, 0, 0))"

definition sort1 :: "('d \<Rightarrow> string \<Rightarrow> bson option) \<Rightarrow> string \<times> int \<Rightarrow> 'd list \<Rightarrow> 'd list" where
  "sort1 fld fo ds =
     (if snd fo = 1 then sort_key (\<lambda>d. skey_of True (fld d (fst fo))) ds
      else rev (sort_key (\<lambda>d. skey_of False (fld d (fst fo))) (rev ds)))"

definition sort_stage :: "('d \<Rightarrow> string \<Rightarrow> bson option) \<Rightarrow> (string \<times> int) list \<Rightarrow> 'd list \<Rightarrow> 'd list" where
  "sort_stage fld spec ds = foldr (sort1 fld) spec ds"

definition sort_ok :: "(string \<times> int) list \<Rightarrow> bool" where
  "sort_ok spec = list_all (\<lambda>fo. fst fo \<noteq> []) spec"

definition as_count :: "jsnum \<Rightarrow> nat option" where
  "as_count x =
     (case x of
        Num (Fin r) \<Rightarrow> (if 0 \<le> r \<and> r = of_int \<lfloor>r\<rfloor> then Some (nat \<lfloor>r\<rfloor>) else None)
      | _ \<Rightarrow> None)"

datatype store_error = StoreError

section \<open>The schema cast of a count\<close>

text \<open>
  \<^verbatim>\<open>Model.aggregate\<close> sends its pipeline to the store as the handler built it;
  \<^verbatim>\<open>Model.countDocuments\<close> first casts its filter by the schema, path by path, and
  throws when a value does not cast. The cast is the library's: a value under a declared
  path is cast to the type of the path, also under \<^verbatim>\<open>$in\<close>, \<^verbatim>\<open>$gte\<close> and \<^verbatim>\<open>$lte\<close>; a
  pattern stays a string; a condition on a path the schema does not declare is left as
  it is when the query option \<^verbatim>\<open>strictQuery\<close> is off and is removed from the filter
  when it is on. The application does not set the option, and its default depends on
  the version of the library. The handlers build conditions from numbers, strings and
  booleans only; any other value is left as it is.

  What the cast takes from its environment are the fields of \<open>host\<close>: the default of
  \<^verbatim>\<open>strictQuery\<close>, \<^verbatim>\<open>Number.prototype.toString\<close>, the constructor of a store
  identifier on a string (\<open>None\<close> when it throws, otherwise the identifier), and the
  \<^verbatim>\<open>Date\<close> constructor on a number and on a string (\<open>None\<close> for an invalid date).
\<close>

record host =
  h_strict :: bool
  h_string :: "xnum \<Rightarrow> string"
  h_oid :: "string \<Rightarrow> string option"
  h_date_num :: "xnum \<Rightarrow> date option"
  h_date_str :: "string \<Rightarrow> date option"

text \<open>
  The type of a declared path; \<open>PString True\<close> is a string path with the setter
  \<^verbatim>\<open>trim\<close>, \<open>PObjectId\<close> an identifier or an array of identifiers, \<open>PNone\<close> a path that
  the schema does not declare.
\<close>

datatype ptype = PString bool | PNumber | PBoolean | PObjectId | PDate | PNone

definition flat_path :: "string \<Rightarrow> ptype" where
  "flat_path k =
     (if k \<in> {''adTitle'', ''city'', ''streetName''} then PString True
      else if k \<in> {''image.url'', ''image.public_id''} then PString False
      else if k \<in> {''streetNumber'', ''areaSize'', ''yearBuilt'', ''rentPrice'',
                    ''dateAvailable'', ''__v''} then PNumber
      else if k = ''hasAC'' then PBoolean
      else if k \<in> {''_id'', ''owner'', ''messages''} then PObjectId
      else if k \<in> {''createdAt'', ''updatedAt''} then PDate
      else PNone)"

datatype cast_error = CastError

text \<open>
  The casts of one value. To a string: \<^verbatim>\<open>toString()\<close>, then the setter of the path. To
  a number: the empty string is null, a string or boolean goes through \<^verbatim>\<open>Number\<close>, and
  \<open>NaN\<close> throws. To a boolean: the two sets of values the library converts, anything
  else but null throws. To an identifier: the constructor on \<^verbatim>\<open>toString()\<close>. To a
  date: a boolean throws, the empty string is null, a numeric string outside the range
  of years is taken as a number of milliseconds, and an invalid date throws.
\<close>

definition set_string :: "bool \<Rightarrow> string \<Rightarrow> string" where
  "set_string tr s = (if tr then trim s else s)"

definition cast_string :: "host \<Rightarrow> bool \<Rightarrow> bson \<Rightarrow> bson" where
  "cast_string h tr v =
     (case v of
        VNum n \<Rightarrow> VStr (set_string tr (h_string h n))
      | VStr s \<Rightarrow> VStr (set_string tr s)
      | VBool b \<Rightarrow> VStr (set_string tr (if b then ''true'' else ''false''))
      | _ \<Rightarrow> v)"

definition cast_number :: "(string \<Rightarrow> jsnum) \<Rightarrow> bson \<Rightarrow> cast_error + bson" where
  "cast_number num v =
     (case v of
        VStr s \<Rightarrow>
          (if s = [] then Inr VNull
           else (case num s of NaN \<Rightarrow> Inl CastError | Num n \<Rightarrow> Inr (VNum n)))
      | VBool b \<Rightarrow> Inr (VNum (Fin (if b then 1 else 0)))
      | _ \<Rightarrow> Inr v)"

definition cast_boolean :: "bson \<Rightarrow> cast_error + bson" where
  "cast_boolean v =
     (if v \<in> {VBool True, VStr ''true'', VNum (Fin 1), VStr ''1'', VStr ''yes''}
      then Inr (VBool True)
      else if v \<in> {VBool False, VStr ''false'', VNum (Fin 0), VStr ''0'', VStr ''no''}
      then Inr (VBool False)
      else if v = VNull then Inr VNull
      else Inl CastError)"

definition new_oid :: "host \<Rightarrow> string \<Rightarrow> cast_error + bson" where
  "new_oid h s = (case h_oid h s of None \<Rightarrow> Inl CastError | Some i \<Rightarrow> Inr (VId i))"

definition cast_oid :: "host \<Rightarrow> bson \<Rightarrow> cast_error + bson" where
  "cast_oid h v =
     (case v of
        VNum n \<Rightarrow> new_oid h (h_string h n)
      | VStr s \<Rightarrow> new_oid h s
      | VBool b \<Rightarrow> new_oid h (if b then ''true'' else ''false'')
      | _ \<Rightarrow> Inr v)"

definition new_date :: "date option \<Rightarrow> cast_error + bson" where
  "new_date t = (case t of None \<Rightarrow> Inl CastError | Some x \<Rightarrow> Inr (VDate x))"

definition cast_date :: "(string \<Rightarrow> jsnum) \<Rightarrow> host \<Rightarrow> bson \<Rightarrow> cast_error + bson" where
  "cast_date num h v =
     (case v of
        VBool b \<Rightarrow> Inl CastError
      | VNum n \<Rightarrow> new_date (h_date_num h n)
      | VStr s \<Rightarrow>
          (if s = [] then Inr VNull
           else (case num s of
                   NaN \<Rightarrow> new_date (h_date_str h s)
                 | Num n \<Rightarrow>
                     (if x_le (Fin 275761) n then new_date (h_date_num h n)
                      else if x_le (Fin (- 271820)) n then new_date (h_date_str h s)
                      else new_date (h_date_num h n))))
      | _ \<Rightarrow> Inr v)"

definition cast_value :: "(string \<Rightarrow> jsnum) \<Rightarrow> host \<Rightarrow> ptype \<Rightarrow> bson \<Rightarrow> cast_error + bson" where
  "cast_value num h pt v =
     (case pt of
        PString tr \<Rightarrow> Inr (cast_string h tr v)
      | PNumber \<Rightarrow> cast_number num v
      | PBoolean \<Rightarrow> cast_boolean v
      | PObjectId \<Rightarrow> cast_oid h v
      | PDate \<Rightarrow> cast_date num h v
      | PNone \<Rightarrow> Inr v)"

fun cast_values ::
  "(string \<Rightarrow> jsnum) \<Rightarrow> host \<Rightarrow> ptype \<Rightarrow> bson list \<Rightarrow> cast_error + bson list" where
  "cast_values num h pt [] = Inr []"
| "cast_values num h pt (v # vs) =
     (case cast_value num h pt v of
        Inl e \<Rightarrow> Inl e
      | Inr w \<Rightarrow> (case cast_values num h pt vs of Inl e \<Rightarrow> Inl e | Inr ws \<Rightarrow> Inr (w # ws)))"

text \<open>
  A condition after the cast: the bounds of a range have the type of the path. In a
  range the bound is a number, which may be \<open>NaN\<close>: its string is \<^verbatim>\<open>NaN\<close>, it is not
  a number a numeric path accepts, and its date is invalid. A boolean path has no range
  operators, and only a string path has the pattern operator.
\<close>

datatype ccond =
    KIn "bson list"
  | KNumRange jsnum jsnum
  | KStrRange string string
  | KIdRange string string
  | KDateRange date date
  | KRegex string
  | KEq bson

definition str_bound :: "host \<Rightarrow> bool \<Rightarrow> jsnum \<Rightarrow> string" where
  "str_bound h tr b = set_string tr (case b of NaN \<Rightarrow> ''NaN'' | Num n \<Rightarrow> h_string h n)"

definition oid_bound :: "host \<Rightarrow> jsnum \<Rightarrow> string option" where
  "oid_bound h b = h_oid h (case b of NaN \<Rightarrow> ''NaN'' | Num n \<Rightarrow> h_string h n)"

definition date_bound :: "host \<Rightarrow> jsnum \<Rightarrow> date option" where
  "date_bound h b = (case b of NaN \<Rightarrow> None | Num n \<Rightarrow> h_date_num h n)"

definition cast_range :: "host \<Rightarrow> ptype \<Rightarrow> jsnum \<Rightarrow> jsnum \<Rightarrow> cast_error + ccond" where
  "cast_range h pt lo hi =
     (case pt of
        PNone \<Rightarrow> Inr (KNumRange lo hi)
      | PNumber \<Rightarrow> (if lo = NaN \<or> hi = NaN then Inl CastError else Inr (KNumRange lo hi))
      | PString tr \<Rightarrow> Inr (KStrRange (str_bound h tr lo) (str_bound h tr hi))
      | PBoolean \<Rightarrow> Inl CastError
      | PObjectId \<Rightarrow>
          (case oid_bound h lo of
             None \<Rightarrow> Inl CastError
           | Some a \<Rightarrow> (case oid_bound h hi of None \<Rightarrow> Inl CastError | Some b \<Rightarrow> Inr (KIdRange a b)))
      | PDate \<Rightarrow>
          (case date_bound h lo of
             None \<Rightarrow> Inl CastError
           | Some a \<Rightarrow>
               (case date_bound h hi of None \<Rightarrow> Inl CastError | Some b \<Rightarrow> Inr (KDateRange a b))))"

definition cast_cond ::
  "(string \<Rightarrow> jsnum) \<Rightarrow> host \<Rightarrow> ptype \<Rightarrow> cond \<Rightarrow> cast_error + ccond" where
  "cast_cond num h pt c =
     (case c of
        CEq v \<Rightarrow> (case cast_value num h pt v of Inl e \<Rightarrow> Inl e | Inr w \<Rightarrow> Inr (KEq w))
      | CIn vs \<Rightarrow> (case cast_values num h pt vs of Inl e \<Rightarrow> Inl e | Inr ws \<Rightarrow> Inr (KIn ws))
      | CRange lo hi \<Rightarrow> cast_range h pt lo hi
      | CRegex p \<Rightarrow>
          (case pt of
             PString tr \<Rightarrow> Inr (KRegex p)
           | PNone \<Rightarrow> Inr (KRegex p)
           | _ \<Rightarrow> Inl CastError))"

fun cast_filter ::
  "(string \<Rightarrow> jsnum) \<Rightarrow> host \<Rightarrow> (string \<Rightarrow> ptype) \<Rightarrow> (string \<times> cond) list \<Rightarrow>
   cast_error + (string \<times> ccond) list" where
  "cast_filter num h path [] = Inr []"
| "cast_filter num h path (kc # flt) =
     (if h_strict h \<and> path (fst kc) = PNone then cast_filter num h path flt
      else (case cast_cond num h (path (fst kc)) (snd kc) of
              Inl e \<Rightarrow> Inl e
            | Inr c \<Rightarrow>
                (case cast_filter num h path flt of
                   Inl e \<Rightarrow> Inl e
                 | Inr cs \<Rightarrow> Inr ((fst kc, c) # cs))))"

text \<open>
  What a cast condition matches. An equality matches the stored value, an identifier
  also matches an array that holds it, and null also matches a missing path. A range
  over identifiers matches an array with an element above the lower bound and an
  element below the upper bound. Strings compare by their code units, identifiers as
  their strings.
\<close>

definition eq_holds :: "bson \<Rightarrow> bson option \<Rightarrow> bool" where
  "eq_holds v x =
     (case x of
        None \<Rightarrow> v = VNull
      | Some (VIds js) \<Rightarrow> v = VIds js \<or> (case v of VId i \<Rightarrow> i \<in> set js | _ \<Rightarrow> False)
      | Some y \<Rightarrow> v = y)"

fun kcond_ok :: "(string \<Rightarrow> (string \<Rightarrow> bool) option) \<Rightarrow> ccond \<Rightarrow> bool" where
  "kcond_ok rx (KRegex p) = (rx p \<noteq> None)"
| "kcond_ok rx _ = True"

fun kholds :: "(string \<Rightarrow> (string \<Rightarrow> bool) option) \<Rightarrow> ccond \<Rightarrow> bson option \<Rightarrow> bool" where
  "kholds rx (KEq v) x = eq_holds v x"
| "kholds rx (KIn vs) x = list_ex (\<lambda>v. eq_holds v x) vs"
| "kholds rx (KNumRange lo hi) x = holds rx (CRange lo hi) x"
| "kholds rx (KStrRange lo hi) x =
     (case x of Some (VStr s) \<Rightarrow> lo \<le> s \<and> s \<le> hi | _ \<Rightarrow> False)"
| "kholds rx (KIdRange lo hi) x =
     (case x of
        Some (VId i) \<Rightarrow> lo \<le> i \<and> i \<le> hi
      | Some (VIds js) \<Rightarrow> list_ex (\<lambda>i. lo \<le> i) js \<and> list_ex (\<lambda>i. i \<le> hi) js
      | _ \<Rightarrow> False)"
| "kholds rx (KDateRange lo hi) x =
     (case x of Some (VDate t) \<Rightarrow> lo \<le> t \<and> t \<le> hi | _ \<Rightarrow> False)"
| "kholds rx (KRegex p) x = holds rx (CRegex p) x"

definition kmatches ::
  "(string \<Rightarrow> (string \<Rightarrow> bool) option) \<Rightarrow> ('d \<Rightarrow> string \<Rightarrow> bson option) \<Rightarrow>
   (string \<times> ccond) list \<Rightarrow> 'd \<Rightarrow> bool" where
  "kmatches rx fld flt d = list_all (\<lambda>kc. kholds rx (snd kc) (fld d (fst kc))) flt"

definition kfilter_ok ::
  "(string \<Rightarrow> (string \<Rightarrow> bool) option) \<Rightarrow> (string \<times> ccond) list \<Rightarrow> bool" where
  "kfilter_ok rx flt = list_all (\<lambda>kc. kcond_ok rx (snd kc)) flt"


text \<open>
  The failure of a count: the cast threw, or the store refused the query.
\<close>

datatype count_error = CastFailed | StoreFailed

text \<open>
  The values a path of the schema stores: a value of the type of the path, after its
  setter.
\<close>

fun fits :: "ptype \<Rightarrow> bson option \<Rightarrow> bool" where
  "fits (PString tr) x = (case x of Some (VStr s) \<Rightarrow> set_string tr s = s | _ \<Rightarrow> False)"
| "fits PNumber x = (case x of Some (VNum n) \<Rightarrow> True | _ \<Rightarrow> False)"
| "fits PBoolean x = (case x of Some (VBool b) \<Rightarrow> True | _ \<Rightarrow> False)"
| "fits PObjectId x = (case x of Some (VId i) \<Rightarrow> True | Some (VIds js) \<Rightarrow> True | _ \<Rightarrow> False)"
| "fits PDate x = (case x of Some (VDate t) \<Rightarrow> True | _ \<Rightarrow> False)"
| "fits PNone x = True"

text \<open>
  A stored flat that went through the setters of its schema: the three trimmed string
  paths hold no leading or trailing white space.
\<close>

definition tidy :: "flat \<Rightarrow> bool" where
  "tidy f =
     (trim (adTitle f) = adTitle f \<and> trim (city f) = city f \<and>
      trim (streetName f) = streetName f)"

section \<open>The flat listing: \<^verbatim>\<open>getAllFlats\<close>\<close>

text \<open>
  One query parameter becomes one condition; the order of the tests is the order of the
  branches of the loop in \<^verbatim>\<open>getAllFlats\<close>.
\<close>

definition coerce :: "(string \<Rightarrow> jsnum) \<Rightarrow> string \<Rightarrow> bson" where
  "coerce num v = (case num v of NaN \<Rightarrow> VStr v | Num n \<Rightarrow> VNum n)"

definition range_of :: "(string \<Rightarrow> jsnum) \<Rightarrow> string \<Rightarrow> cond" where
  "range_of num v =
     (case split_on CHR ''-'' v of
        mn # mx # _ \<Rightarrow> CRange (num mn) (num mx)
      | [mn] \<Rightarrow> CRange (num mn) NaN
      | [] \<Rightarrow> CRange NaN NaN)"

definition build_cond :: "(string \<Rightarrow> jsnum) \<Rightarrow> string \<Rightarrow> string \<Rightarrow> cond" where
  "build_cond num key v =
     (if CHR '','' \<in> set v then CIn (map (coerce num) (split_on CHR '','' v))
      else if CHR ''-'' \<in> set v then range_of num v
      else if key = ''city'' then CRegex (replace_seps v)
      else if key \<in> {''title'', ''address''} then CRegex v
      else if v = ''true'' \<or> v = ''false'' then CEq (VBool (v = ''true''))
      else CEq (coerce num v))"

definition build_filter :: "(string \<Rightarrow> jsnum) \<Rightarrow> (string \<times> string) list \<Rightarrow> (string \<times> cond) list" where
  "build_filter num filters = map (\<lambda>kv. (fst kv, build_cond num (fst kv) (snd kv))) filters"

text \<open>
  \<^verbatim>\<open>const { page = 1, limit = 100000, sort, ...filters } = req.query\<close>: the query is
  the list of its keys and string values, in the order of the request (the keys of the
  query object are distinct).
\<close>

definition rest_filters :: "(string \<times> string) list \<Rightarrow> (string \<times> string) list" where
  "rest_filters q = filter (\<lambda>kv. fst kv \<notin> {''page'', ''limit'', ''sort''}) q"

definition page_of :: "(string \<Rightarrow> jsnum) \<Rightarrow> (string \<times> string) list \<Rightarrow> jsnum" where
  "page_of num q = (case map_of q ''page'' of None \<Rightarrow> Num (Fin 1) | Some s \<Rightarrow> num s)"

definition limit_of :: "(string \<Rightarrow> jsnum) \<Rightarrow> (string \<times> string) list \<Rightarrow> jsnum" where
  "limit_of num q = (case map_of q ''limit'' of None \<Rightarrow> Num (Fin 100000) | Some s \<Rightarrow> num s)"

definition skip_of :: "(string \<Rightarrow> jsnum) \<Rightarrow> (string \<times> string) list \<Rightarrow> jsnum" where
  "skip_of num q = js_mul (js_sub (page_of num q) (Num (Fin 1))) (limit_of num q)"

text \<open>
  The sort object: one key per field of the comma-separated list, in the order of first
  appearance; \<^verbatim>\<open>field.replace('-', '')\<close> removes the first hyphen of the field.
\<close>

definition sort_entry :: "string \<Rightarrow> string \<times> int" where
  "sort_entry field = (remove1 CHR ''-'' field, if take 1 field = ''-'' then - 1 else 1)"

definition parse_sort :: "string \<Rightarrow> (string \<times> int) list" where
  "parse_sort s =
     foldl (\<lambda>obj field. AList.update (fst (sort_entry field)) (snd (sort_entry field)) obj)
       [] (split_on CHR '','' s)"

definition sort_spec :: "(string \<times> string) list \<Rightarrow> (string \<times> int) list" where
  "sort_spec q =
     (case map_of q ''sort'' of
        None \<Rightarrow> [(''createdAt'', - 1)]
      | Some s \<Rightarrow> (if s = [] then [(''createdAt'', - 1)] else parse_sort s))"

text \<open>The owner's projected fields, joined into each flat of the result.\<close>

record owner_info =
  o_id :: string
  o_firstName :: string
  o_lastName :: string
  o_email :: string

definition project_owner :: "user \<Rightarrow> owner_info" where
  "project_owner u =
     \<lparr>o_id = u_id u, o_firstName = firstName u, o_lastName = lastName u, o_email = email u\<rparr>"

text \<open>\<^verbatim>\<open>$lookup\<close> then \<^verbatim>\<open>$unwind\<close>: one output document per owner found.\<close>

definition lookup_unwind :: "user list \<Rightarrow> flat list \<Rightarrow> (flat \<times> owner_info) list" where
  "lookup_unwind us fs =
     concat (map (\<lambda>f. map (\<lambda>u. (f, project_owner u)) (filter (\<lambda>u. u_id u = owner f) us)) fs)"

text \<open>The pipeline without its two pagination stages: the full result of a query.\<close>

definition flats_unpaginated ::
  "(string \<Rightarrow> (string \<Rightarrow> bool) option) \<Rightarrow> db \<Rightarrow> (string \<times> cond) list \<Rightarrow> (string \<times> int) list \<Rightarrow>
   (flat \<times> owner_info) list" where
  "flats_unpaginated rx d flt spec =
     lookup_unwind (users d) (sort_stage flat_fld spec (filter (matches rx flat_fld flt) (flats d)))"

definition flat_aggregate ::
  "(string \<Rightarrow> (string \<Rightarrow> bool) option) \<Rightarrow> db \<Rightarrow> (string \<times> cond) list \<Rightarrow> (string \<times> int) list \<Rightarrow>
   jsnum \<Rightarrow> jsnum \<Rightarrow> store_error + (flat \<times> owner_info) list" where
  "flat_aggregate rx d flt spec sk lm =
     (if \<not> filter_ok rx flt then Inl StoreError
      else if \<not> sort_ok spec then Inl StoreError
      else (case as_count sk of
              None \<Rightarrow> Inl StoreError
            | Some s \<Rightarrow>
                (case as_count lm of
                   None \<Rightarrow> Inl StoreError
                 | Some l \<Rightarrow>
                     (if l = 0 then Inl StoreError
                      else Inr (take l (drop s (flats_unpaginated rx d flt spec)))))))"

text \<open>\<^verbatim>\<open>Flat.countDocuments(filter)\<close>: the cast of the filter, then the count.\<close>

definition flat_count ::
  "(string \<Rightarrow> jsnum) \<Rightarrow> host \<Rightarrow> (string \<Rightarrow> (string \<Rightarrow> bool) option) \<Rightarrow> db \<Rightarrow>
   (string \<times> cond) list \<Rightarrow> count_error + nat" where
  "flat_count num h rx d flt =
     (case cast_filter num h flat_path flt of
        Inl e \<Rightarrow> Inl CastFailed
      | Inr k \<Rightarrow>
          (if \<not> kfilter_ok rx k then Inl StoreFailed
           else Inr (length (filter (kmatches rx flat_fld k) (flats d)))))"

text \<open>The response of a listing endpoint: the success body, or a status and a message.\<close>

datatype 'a listing =
    Listing (l_page: jsnum) (l_limit: jsnum) (totalCount: nat) (l_count: nat) (l_data: "'a list")
  | Failed nat string

definition getAllFlats ::
  "(string \<Rightarrow> jsnum) \<Rightarrow> host \<Rightarrow> (string \<Rightarrow> (string \<Rightarrow> bool) option) \<Rightarrow> db \<Rightarrow>
   (string \<times> string) list \<Rightarrow> (flat \<times> owner_info) listing" where
  "getAllFlats num h rx d q =
     (let flt = build_filter num (rest_filters q) in
      case flat_aggregate rx d flt (sort_spec q) (skip_of num q) (limit_of num q) of
        Inl e \<Rightarrow> Failed 500 ''Error fetching flats''
      | Inr fs \<Rightarrow>
          (case flat_count num h rx d flt of
             Inl e \<Rightarrow> Failed 500 ''Error fetching flats''
           | Inr n \<Rightarrow> Listing (page_of num q) (limit_of num q) n (length fs) fs))"

section \<open>The user listing: \<^verbatim>\<open>getAllUsers\<close>\<close>

text \<open>
  The derived age of the aggregation: the difference of the years, less one when the
  current month is before the birth month, or is the birth month with the current day
  before the birth day.
\<close>

definition age_expr :: "date \<Rightarrow> date \<Rightarrow> int" where
  "age_expr now b =
     (case now of (nowYear, nowMonth, nowDay, _) \<Rightarrow>
      case b of (birthYear, birthMonth, birthDay, _) \<Rightarrow>
        (nowYear - birthYear)
        - (if nowMonth < birthMonth \<or> (nowMonth = birthMonth \<and> nowDay < birthDay) then 1 else 0))"

text \<open>
  The age of the \<open>birthDate\<close> validator of the user schema; \<^verbatim>\<open>getMonth()\<close> counts the
  months from 0.
\<close>

definition validator_age :: "date \<Rightarrow> date \<Rightarrow> int" where
  "validator_age today dob =
     (case today of (ty, tm, td, _) \<Rightarrow>
      case dob of (dy, dm, dd, _) \<Rightarrow>
        (let age = ty - dy; monthDiff = (int tm - 1) - (int dm - 1)
         in if monthDiff < 0 \<or> (monthDiff = 0 \<and> td < dd) then age - 1 else age))"

definition leap_year :: "int \<Rightarrow> bool" where
  "leap_year y = (if y mod 400 = 0 then True else if y mod 100 = 0 then False else y mod 4 = 0)"

definition days_in_month :: "int \<Rightarrow> nat \<Rightarrow> nat" where
  "days_in_month y m =
     (if m = 2 then (if leap_year y then 29 else 28)
      else if m \<in> {4, 6, 9, 11} then 30 else 31)"

text \<open>
  \<^verbatim>\<open>new Date(year, now.getMonth(), now.getDate())\<close>: the year is truncated to an
  integer, a year from 0 to 99 means 1900 to 1999, and a day beyond the end of the month
  runs over into the next month (the day comes from a calendar date, so it runs over at
  most once). A year that is not finite gives an invalid date, \<open>None\<close>.
\<close>

definition js_new_date :: "jsnum \<Rightarrow> nat \<Rightarrow> nat \<Rightarrow> date option" where
  "js_new_date y m d =
     (case y of
        Num (Fin r) \<Rightarrow>
          (let y0 = (if 0 \<le> r then \<lfloor>r\<rfloor> else \<lceil>r\<rceil>);
               yr = (if 0 \<le> y0 \<and> y0 \<le> 99 then 1900 + y0 else y0);
               n = days_in_month yr m
           in if n < d then (if m = 12 then Some (yr + 1, 1, d - n, 0) else Some (yr, m + 1, d - n, 0))
              else Some (yr, m, d, 0))
      | _ \<Rightarrow> None)"

text \<open>
  The first match stage. \<^verbatim>\<open>if (filters.role)\<close> and \<^verbatim>\<open>if (filters.age)\<close> skip an
  absent and an empty parameter. In the pipeline, which is sent as it is built, a date
  bound that is an invalid date matches nothing.
  \<^verbatim>\<open>const [min, max] = v.split('-').map(Number)\<close> takes the first two segments; with
  one segment \<open>max\<close> is undefined, which gives \<open>NaN\<close> in the subtraction of the age
  filter and a bound that no number satisfies in the \<open>flatsCount\<close> filter.
\<close>

definition truthy :: "(string \<times> string) list \<Rightarrow> string \<Rightarrow> string option" where
  "truthy filters k =
     (case map_of filters k of None \<Rightarrow> None | Some v \<Rightarrow> (if v = [] then None else Some v))"

definition bounds_of :: "(string \<Rightarrow> jsnum) \<Rightarrow> string \<Rightarrow> jsnum \<times> jsnum" where
  "bounds_of num v =
     (case map num (split_on CHR ''-'' v) of
        mn # mx # _ \<Rightarrow> (mn, mx)
      | [mn] \<Rightarrow> (mn, NaN)
      | [] \<Rightarrow> (NaN, NaN))"

record match_stage =
  ms_role :: "string option"
  ms_birthDate :: "(date option \<times> date option) option"

definition build_match :: "(string \<Rightarrow> jsnum) \<Rightarrow> date \<Rightarrow> (string \<times> string) list \<Rightarrow> match_stage" where
  "build_match num now filters =
     \<lparr>ms_role = truthy filters ''role'',
      ms_birthDate =
        (case truthy filters ''age'' of
           None \<Rightarrow> None
         | Some a \<Rightarrow>
             (case now of (nowYear, nowMonth, nowDay, _) \<Rightarrow>
              case bounds_of num a of (mn, mx) \<Rightarrow>
                Some (js_new_date (js_sub (Num (Fin (of_int nowYear))) mx) nowMonth nowDay,
                      js_new_date (js_sub (Num (Fin (of_int nowYear))) mn) nowMonth nowDay)))\<rparr>"

definition user_matches :: "match_stage \<Rightarrow> user \<Rightarrow> bool" where
  "user_matches ms u =
     ((case ms_role ms of None \<Rightarrow> True | Some r \<Rightarrow> role u = r) \<and>
      (case ms_birthDate ms of
         None \<Rightarrow> True
       | Some (Some lo, Some hi) \<Rightarrow> lo \<le> birthDate u \<and> birthDate u \<le> hi
       | Some _ \<Rightarrow> False))"

text \<open>The documents after \<^verbatim>\<open>$addFields\<close>.\<close>

record urow =
  r_user :: user
  publishedFlatsCount :: nat
  age :: int

definition add_fields :: "date \<Rightarrow> user \<Rightarrow> urow" where
  "add_fields now u =
     \<lparr>r_user = u,
      publishedFlatsCount = (case addedFlats u of None \<Rightarrow> 0 | Some fs \<Rightarrow> length fs),
      age = age_expr now (birthDate u)\<rparr>"

definition flatsCount_stage :: "(string \<Rightarrow> jsnum) \<Rightarrow> (string \<times> string) list \<Rightarrow> urow list \<Rightarrow> urow list" where
  "flatsCount_stage num filters rs =
     (case truthy filters ''flatsCount'' of
        None \<Rightarrow> rs
      | Some v \<Rightarrow>
          filter (\<lambda>r. in_range (Fin (of_nat (publishedFlatsCount r)))
                       (fst (bounds_of num v)) (snd (bounds_of num v))) rs)"

definition urow_fld :: "urow \<Rightarrow> string \<Rightarrow> bson option" where
  "urow_fld r k =
     (if k = ''_id'' then Some (VId (u_id (r_user r)))
      else if k = ''firstName'' then Some (VStr (firstName (r_user r)))
      else if k = ''lastName'' then Some (VStr (lastName (r_user r)))
      else if k = ''birthDate'' then Some (VDate (birthDate (r_user r)))
      else if k = ''email'' then Some (VStr (email (r_user r)))
      else if k = ''password'' then Some (VStr (password (r_user r)))
      else if k = ''role'' then Some (VStr (role (r_user r)))
      else if k = ''favoriteFlats'' then Some (VIds (favoriteFlats (r_user r)))
      else if k = ''addedFlats'' then map_option VIds (addedFlats (r_user r))
      else if k = ''createdAt'' then Some (VDate (u_createdAt (r_user r)))
      else if k = ''publishedFlatsCount'' then Some (VNum (Fin (of_nat (publishedFlatsCount r))))
      else if k = ''age'' then Some (VNum (Fin (of_int (age r))))
      else None)"

record user_summary =
  s_id :: string
  s_firstName :: string
  s_lastName :: string
  s_email :: string
  s_birthDate :: date
  s_age :: int
  s_role :: string
  s_publishedFlatsCount :: nat
  s_createdAt :: date

definition project_user :: "urow \<Rightarrow> user_summary" where
  "project_user r =
     \<lparr>s_id = u_id (r_user r), s_firstName = firstName (r_user r),
      s_lastName = lastName (r_user r), s_email = email (r_user r),
      s_birthDate = birthDate (r_user r), s_age = age r, s_role = role (r_user r),
      s_publishedFlatsCount = publishedFlatsCount r, s_createdAt = u_createdAt (r_user r)\<rparr>"

definition users_unpaginated ::
  "(string \<Rightarrow> jsnum) \<Rightarrow> date \<Rightarrow> db \<Rightarrow> (string \<times> string) list \<Rightarrow> (string \<times> int) list \<Rightarrow> user_summary list" where
  "users_unpaginated num now d filters spec =
     map project_user
       (sort_stage urow_fld spec
          (flatsCount_stage num filters
             (map (add_fields now) (filter (user_matches (build_match num now filters)) (users d)))))"

definition user_aggregate ::
  "(string \<Rightarrow> jsnum) \<Rightarrow> date \<Rightarrow> db \<Rightarrow> (string \<times> string) list \<Rightarrow> (string \<times> int) list \<Rightarrow>
   jsnum \<Rightarrow> jsnum \<Rightarrow> store_error + user_summary list" where
  "user_aggregate num now d filters spec sk lm =
     (if \<not> sort_ok spec then Inl StoreError
      else (case as_count sk of
              None \<Rightarrow> Inl StoreError
            | Some s \<Rightarrow>
                (case as_count lm of
                   None \<Rightarrow> Inl StoreError
                 | Some l \<Rightarrow>
                     (if l = 0 then Inl StoreError
                      else Inr (take l (drop s (users_unpaginated num now d filters spec)))))))"

text \<open>
  \<^verbatim>\<open>User.countDocuments(matchStage)\<close>: the role is a string under a string path and a
  valid date under the date path casts to itself; an invalid date does not cast.
\<close>

definition dates_valid :: "match_stage \<Rightarrow> bool" where
  "dates_valid ms =
     (case ms_birthDate ms of None \<Rightarrow> True | Some b \<Rightarrow> fst b \<noteq> None \<and> snd b \<noteq> None)"

definition user_count :: "db \<Rightarrow> match_stage \<Rightarrow> count_error + nat" where
  "user_count d ms =
     (if \<not> dates_valid ms then Inl CastFailed
      else Inr (length (filter (user_matches ms) (users d))))"

definition getAllUsers ::
  "(string \<Rightarrow> jsnum) \<Rightarrow> date \<Rightarrow> db \<Rightarrow> (string \<times> string) list \<Rightarrow> user_summary listing" where
  "getAllUsers num now d q =
     (let filters = rest_filters q in
      case user_aggregate num now d filters (sort_spec q) (skip_of num q) (limit_of num q) of
        Inl e \<Rightarrow> Failed 500 ''Error retrieving users''
      | Inr us \<Rightarrow>
          (case user_count d (build_match num now filters) of
             Inl e \<Rightarrow> Failed 500 ''Error retrieving users''
           | Inr n \<Rightarrow> Listing (page_of num q) (limit_of num q) n (length us) us))"

section \<open>The listings over any sort stage of the store\<close>









section \<open>Reading one record by its identifier\<close>

text \<open>
  A handler returns its response and the list of the queries it issued against the
  store. \<open>isValid\<close> is \<^verbatim>\<open>mongoose.Types.ObjectId.isValid\<close>, the format of the store's
  identifiers; \<^verbatim>\<open>findById\<close> with an identifier outside the format throws a cast error.
\<close>

datatype store_op = FlatFindById string | UserFindById string

datatype 'a reply = Reply nat 'a | Fail nat string

definition flat_findById :: "(string \<Rightarrow> bool) \<Rightarrow> db \<Rightarrow> string \<Rightarrow> cast_error + flat option" where
  "flat_findById isValid d i =
     (if isValid i then Inr (find (\<lambda>f. f_id f = i) (flats d)) else Inl CastError)"

definition user_findById :: "(string \<Rightarrow> bool) \<Rightarrow> db \<Rightarrow> string \<Rightarrow> cast_error + user option" where
  "user_findById isValid d i =
     (if isValid i then Inr (find (\<lambda>u. u_id u = i) (users d)) else Inl CastError)"

text \<open>The populated flat: the owner's projection when the owner exists, and the messages.\<close>

definition populate :: "db \<Rightarrow> flat \<Rightarrow> flat \<times> owner_info option \<times> message list" where
  "populate d f =
     (f, map_option project_owner (find (\<lambda>u. u_id u = owner f) (users d)),
      filter (\<lambda>m. m_id m \<in> set (messages f)) (msgs d))"

definition getFlatById ::
  "(string \<Rightarrow> bool) \<Rightarrow> db \<Rightarrow> string \<Rightarrow>
   (flat \<times> owner_info option \<times> message list) reply \<times> store_op list" where
  "getFlatById isValid d fid =
     (if \<not> isValid fid then (Fail 400 ''Invalid flat ID format'', [])
      else (case flat_findById isValid d fid of
              Inl e \<Rightarrow> (Fail 500 ''Error retrieving flat details'', [FlatFindById fid])
            | Inr None \<Rightarrow> (Fail 404 ''Flat not found'', [FlatFindById fid])
            | Inr (Some f) \<Rightarrow> (Reply 200 (populate d f), [FlatFindById fid])))"

definition getUserById :: "(string \<Rightarrow> bool) \<Rightarrow> db \<Rightarrow> string \<Rightarrow> user reply \<times> store_op list" where
  "getUserById isValid d i =
     (case user_findById isValid d i of
        Inl e \<Rightarrow> (Fail 500 ''Error retrieving user'', [UserFindById i])
      | Inr None \<Rightarrow> (Fail 404 ''User not found'', [UserFindById i])
      | Inr (Some u) \<Rightarrow> (Reply 200 u, [UserFindById i]))"

section \<open>Messages: \<^verbatim>\<open>addMessage\<close>\<close>

text \<open>
  \<^verbatim>\<open>Message.create\<close> validates the content of the message schema: required, trimmed,
  from 1 to 1000 characters. \<open>mid\<close> is the identifier the store gives the new message.
\<close>

datatype validation_error = ValidationError

definition message_create ::
  "string \<Rightarrow> string option \<Rightarrow> string \<Rightarrow> string \<Rightarrow> validation_error + message" where
  "message_create mid c fid sid =
     (case c of
        None \<Rightarrow> Inl ValidationError
      | Some txt \<Rightarrow>
          (if length (trim txt) < 1 \<or> 1000 < length (trim txt) then Inl ValidationError
           else Inr \<lparr>m_id = mid, content = trim txt, flatId = fid, senderId = sid\<rparr>))"

text \<open>\<^verbatim>\<open>Flat.findByIdAndUpdate(flatId, { $push: { messages: message._id } })\<close>.\<close>

fun push_message :: "string \<Rightarrow> string \<Rightarrow> flat list \<Rightarrow> flat list" where
  "push_message fid mid [] = []"
| "push_message fid mid (f # fs) =
     (if f_id f = fid then f\<lparr>messages := messages f @ [mid]\<rparr> # fs
      else f # push_message fid mid fs)"

definition addMessage ::
  "(string \<Rightarrow> bool) \<Rightarrow> string \<Rightarrow> db \<Rightarrow> string \<Rightarrow> string \<Rightarrow> string option \<Rightarrow> message reply \<times> db" where
  "addMessage isValid mid d fid sid c =
     (case flat_findById isValid d fid of
        Inl e \<Rightarrow> (Fail 500 ''Server error while sending message'', d)
      | Inr None \<Rightarrow> (Fail 404 ''Flat not found'', d)
      | Inr (Some f) \<Rightarrow>
          (if owner f = sid then (Fail 403 ''Owners cannot send messages to their own flats'', d)
           else (case message_create mid c fid sid of
                   Inl e \<Rightarrow> (Fail 500 ''Server error while sending message'', d)
                 | Inr m \<Rightarrow>
                     (Reply 201 m,
                      d\<lparr>flats := push_message fid (m_id m) (flats d), msgs := msgs d @ [m]\<rparr>))))"

section \<open>Registration and the pre-save hook of the user schema\<close>

text \<open>
  The document a save works on: the user, whether the document is new, and whether the
  path \<open>password\<close> is modified. \<open>hash\<close> is \<^verbatim>\<open>bcrypt.hash\<close> with 12 rounds.
\<close>

definition pre_save :: "(string \<Rightarrow> string) \<Rightarrow> bool \<Rightarrow> bool \<Rightarrow> user \<Rightarrow> user" where
  "pre_save hash isNew isModified_password u =
     (if \<not> isModified_password then u
      else (let u1 = u\<lparr>password := hash (password u)\<rparr>
            in if isNew then u1\<lparr>role := ''user''\<rparr> else u1))"

text \<open>
  The body of a registration request: every path may be absent. \<^verbatim>\<open>User.create\<close> builds
  a new document (an absent role takes the default), validates it before the pre-save
  hooks run, and inserts it; a path that was set on a new document is modified. The
  required paths and the enumeration of the role are checked as the schema states them;
  \<open>valid\<close> stands for the remaining validators (names, email, password strength and the
  age from the birth date); the setters of the schema (trim, lowercase) are left out.
  \<open>uid\<close> and \<open>now\<close> are the identifier and the time of creation.
\<close>

record reg_body =
  b_firstName :: "string option"
  b_lastName :: "string option"
  b_birthDate :: "date option"
  b_email :: "string option"
  b_password :: "string option"
  b_role :: "string option"

datatype create_error = Validation | DuplicateKey

definition new_user :: "string \<Rightarrow> date \<Rightarrow> reg_body \<Rightarrow> user option" where
  "new_user uid now b =
     (case (b_firstName b, b_lastName b, b_birthDate b, b_email b, b_password b) of
        (Some fname, Some lname, Some bd, Some em, Some pw) \<Rightarrow>
          Some \<lparr>u_id = uid, firstName = fname, lastName = lname, birthDate = bd, email = em,
                password = pw, role = (case b_role b of None \<Rightarrow> ''user'' | Some r \<Rightarrow> r),
                favoriteFlats = [], addedFlats = Some [], u_createdAt = now\<rparr>
      | _ \<Rightarrow> None)"

definition user_create ::
  "(string \<Rightarrow> string) \<Rightarrow> (user \<Rightarrow> bool) \<Rightarrow> string \<Rightarrow> date \<Rightarrow> db \<Rightarrow> reg_body \<Rightarrow> create_error + user \<times> db" where
  "user_create hash valid uid now d b =
     (case new_user uid now b of
        None \<Rightarrow> Inl Validation
      | Some u \<Rightarrow>
          (if role u \<notin> {''user'', ''admin''} then Inl Validation
           else if \<not> valid u then Inl Validation
           else (let u1 = pre_save hash True (b_password b \<noteq> None) u
                 in if email u1 \<in> set (map email (users d)) then Inl DuplicateKey
                    else Inr (u1, d\<lparr>users := users d @ [u1]\<rparr>))))"

definition register ::
  "(string \<Rightarrow> string) \<Rightarrow> (user \<Rightarrow> bool) \<Rightarrow> string \<Rightarrow> date \<Rightarrow> db \<Rightarrow> reg_body \<Rightarrow> user reply \<times> db" where
  "register hash valid uid now d b =
     (case user_create hash valid uid now d b of
        Inl Validation \<Rightarrow> (Fail 400 ''Validation error'', d)
      | Inl DuplicateKey \<Rightarrow> (Fail 400 ''Email already exists'', d)
      | Inr (u, d1) \<Rightarrow> (Reply 200 (u\<lparr>password := []\<rparr>), d1))"

section \<open>Example data\<close>

text \<open>
  The concrete inputs of the examples below. \<open>dec_num\<close> is \<^verbatim>\<open>Number\<close> on the strings
  the examples pass to it: the empty string is 0 and a string of decimal digits is its
  value; the examples pass no other numeric literal, and \<open>dec_num\<close> gives \<open>NaN\<close> for
  every other string. \<open>is_hex24\<close> is the identifier format of the examples, 24
  hexadecimal digits.
\<close>

definition is_digit :: "char \<Rightarrow> bool" where
  "is_digit c = (of_char c \<in> {48 ..< 58 :: nat})"

definition dec_num :: "string \<Rightarrow> jsnum" where
  "dec_num s =
     (if s = [] then Num (Fin 0)
      else if list_all is_digit s
      then Num (Fin (of_nat (foldl (\<lambda>a c. 10 * a + (of_char c - 48)) 0 s)))
      else NaN)"

definition is_hex :: "char \<Rightarrow> bool" where
  "is_hex c = (of_char c \<in> {48 ..< 58 :: nat} \<union> {65 ..< 71} \<union> {97 ..< 103})"

definition is_hex24 :: "string \<Rightarrow> bool" where
  "is_hex24 s = (length s = 24 \<and> list_all is_hex s)"

definition no_rx :: "string \<Rightarrow> (string \<Rightarrow> bool) option" where
  "no_rx p = None"

definition uid1 :: string where "uid1 = ''64b000000000000000000001''"
definition uid2 :: string where "uid2 = ''64b000000000000000000002''"
definition fid1 :: string where "fid1 = ''64c000000000000000000001''"
definition fid2 :: string where "fid2 = ''64c000000000000000000002''"
definition mid1 :: string where "mid1 = ''64d000000000000000000001''"

definition leap_day :: date where
  "leap_day = (2024, 2, 29, 0)"

definition ana :: user where
  "ana = \<lparr>u_id = uid1, firstName = ''Ana'', lastName = ''Pop'',
          birthDate = (2005, 3, 1, 0), email = ''ana@example.com'', password = ''h1'',
          role = ''user'', favoriteFlats = [], addedFlats = Some [],
          u_createdAt = (2023, 5, 1, 0)\<rparr>"

definition dan :: user where
  "dan = \<lparr>u_id = uid2, firstName = ''Dan'', lastName = ''Rus'',
          birthDate = (1990, 7, 20, 0), email = ''dan@example.com'', password = ''h2'',
          role = ''admin'', favoriteFlats = [], addedFlats = Some [fid1, fid2],
          u_createdAt = (2023, 6, 1, 0)\<rparr>"

definition studio :: flat where
  "studio = \<lparr>f_id = fid1, adTitle = ''Sunny studio'', city = ''Alba-Iulia'',
             streetName = ''Unirii'', streetNumber = Fin 10, areaSize = Fin 40,
             hasAC = True, yearBuilt = Fin 2001, rentPrice = Fin 350,
             dateAvailable = Fin 1717200000000, image_url = ''https://img.example/1'',
             image_public_id = ''img1'', owner = uid2, messages = [],
             f_createdAt = (2024, 1, 10, 0), f_updatedAt = (2024, 1, 10, 0), f_v = Fin 0,
             f_extra = []\<rparr>"

definition loft :: flat where
  "loft = \<lparr>f_id = fid2, adTitle = ''Quiet loft'', city = ''Cluj'',
           streetName = ''Horea'', streetNumber = Fin 3, areaSize = Fin 75,
           hasAC = False, yearBuilt = Fin 1985, rentPrice = Fin 600,
           dateAvailable = Fin 1719800000000, image_url = ''https://img.example/2'',
           image_public_id = ''img2'', owner = uid2, messages = [],
           f_createdAt = (2024, 1, 12, 0), f_updatedAt = (2024, 1, 12, 0), f_v = Fin 0,
           f_extra = []\<rparr>"

definition ex_db :: db where
  "ex_db = \<lparr>flats = [studio, loft], users = [ana, dan], msgs = []\<rparr>"

definition uid3 :: string where "uid3 = ''64b000000000000000000003''"

definition eva_body :: reg_body where
  "eva_body = \<lparr>b_firstName = Some ''Eva'', b_lastName = Some ''Marin'',
     b_birthDate = Some (1995, 4, 2, 0), b_email = Some ''eva@example.com'',
     b_password = Some ''s3cret!'', b_role = Some ''admin''\<rparr>"

definition eva :: user where
  "eva = \<lparr>u_id = uid3, firstName = ''Eva'', lastName = ''Marin'',
          birthDate = (1995, 4, 2, 0), email = ''eva@example.com'', password = ''#s3cret!'',
          role = ''user'', favoriteFlats = [], addedFlats = Some [],
          u_createdAt = leap_day\<rparr>"

definition tag_hash :: "string \<Rightarrow> string" where
  "tag_hash p = CHR ''#'' # p"

definition accept_all :: "user \<Rightarrow> bool" where
  "accept_all u = True"

text \<open>
  The whole years between two dates, in the words of the specification: the calendar
  day of a date, and the anniversary of a birth date after \<open>A\<close> years, which keeps the
  month and the day. A person is \<open>A\<close> years old from the anniversary \<open>A\<close> to the day
  before the anniversary \<open>A + 1\<close>; calendar days compare by year, then month, then day.
\<close>

definition day_of :: "date \<Rightarrow> int \<times> nat \<times> nat" where
  "day_of t = (case t of (y, m, d, ms) \<Rightarrow> (y, m, d))"

definition anniversary :: "date \<Rightarrow> int \<Rightarrow> int \<times> nat \<times> nat" where
  "anniversary b A = (case b of (y, m, d, ms) \<Rightarrow> (y + A, m, d))"

text \<open>The calendar day after a date, to state what the age is one day before a birthday.\<close>

definition next_day :: "date \<Rightarrow> date" where
  "next_day b =
     (case b of (y, m, d, t) \<Rightarrow>
        if d < days_in_month y m then (y, m, d + 1, t)
        else if m < 12 then (y, m + 1, 1, t)
        else (y + 1, 1, 1, t))"



section \<open>Facts about the page window and small pipelines\<close>

lemma as_count_nat: "as_count (Num (Fin (of_nat n))) = Some n"
  by (simp add: as_count_def)

lemma as_count_0: "as_count (Num (Fin 0)) = Some 0"
  by (simp add: as_count_def)

lemma as_count_default: "as_count (Num (Fin 100000)) = Some 100000"
  using as_count_nat [of 100000] by simp

lemma default_window:
  assumes "map_of q ''page'' = None" "map_of q ''limit'' = None"
  shows "page_of num q = Num (Fin 1)" "limit_of num q = Num (Fin 100000)"
    "skip_of num q = Num (Fin 0)"
  using assms by (simp_all add: skip_of_def page_of_def limit_of_def)

lemma sort_stage_single: "sort_stage fld [fo] [x] = [x]"
  by (simp add: sort_stage_def sort1_def)



lemma length_sort1: "length (sort1 fld fo xs) = length xs"
  by (simp add: sort1_def)

lemma length_sort_stage: "length (sort_stage fld spec xs) = length xs"
  unfolding sort_stage_def by (induction spec) (simp_all add: length_sort1)

lemma owners_at_most_one:
  assumes "distinct (map u_id us)"
  shows "length (filter (\<lambda>u. u_id u = i) us) \<le> 1"
  using assms by (induction us) (auto simp: filter_empty_conv image_iff)

lemma length_lookup_unwind:
  assumes "distinct (map u_id us)"
  shows "length (lookup_unwind us fs) \<le> length fs"
  unfolding lookup_unwind_def
proof (induction fs)
  case Nil
  then show ?case by simp
next
  case (Cons f fs)
  from owners_at_most_one [OF assms, of "owner f"] Cons show ?case by simp
qed


lemma getAllFlats_Listing:
  assumes "getAllFlats num h rx d q = Listing pg lm T c ds"
  shows "filter_ok rx (build_filter num (rest_filters q))" "sort_ok (sort_spec q)"
    "flat_count num h rx d (build_filter num (rest_filters q)) = Inr T"
  using assms
  by (auto simp: getAllFlats_def flat_aggregate_def Let_def
      split: if_splits option.splits sum.splits)




lemma length_flats_unpaginated:
  assumes "distinct (map u_id (users d))"
  shows "length (flats_unpaginated rx d flt spec)
         \<le> length (filter (matches rx flat_fld flt) (flats d))"
  using length_lookup_unwind
    [OF assms, of "sort_stage flat_fld spec (filter (matches rx flat_fld flt) (flats d))"]
  by (simp add: flats_unpaginated_def length_sort_stage)



lemma users_ex_db: "users ex_db = [ana, dan]"
  by (simp add: ex_db_def)

section \<open>The count after the cast\<close>




lemma fits_flat_fld:
  assumes "tidy f"
  shows "fits (flat_path k) (flat_fld f k)"
  using assms by (simp add: flat_path_def flat_fld_def tidy_def set_string_def)

lemma cast_value_fits:
  assumes "fits pt (Some v)"
  shows "cast_value num h pt v = Inr v"
  using assms
  by (cases pt; cases v)
    (simp_all add: cast_value_def cast_string_def cast_number_def cast_boolean_def
      cast_oid_def cast_date_def)

lemma cast_values_mem:
  assumes "cast_values num h pt vs = Inr ws" "v \<in> set vs" "cast_value num h pt v = Inr w"
  shows "w \<in> set ws"
  using assms by (induction vs arbitrary: ws) (auto split: sum.splits)

lemma eq_holds_same: "eq_holds v (Some v)"
  by (cases v) (simp_all add: eq_holds_def)

lemma holds_cast:
  assumes h: "holds rx c x" and f: "fits pt x" and c: "cast_cond num h pt c = Inr k"
  shows "kholds rx k x"
proof (cases c)
  case (CIn vs)
  from h CIn obtain v where v: "v \<in> set vs" and x: "x = Some v" by auto
  from c CIn obtain ws where ws: "cast_values num h pt vs = Inr ws" and k: "k = KIn ws"
    by (auto simp: cast_cond_def split: sum.splits)
  from f x have "cast_value num h pt v = Inr v" by (simp add: cast_value_fits)
  from cast_values_mem [OF ws v this] have "v \<in> set ws" .
  with x k show ?thesis using eq_holds_same [of v] by (auto simp: list_ex_iff)
next
  case (CRange lo hi)
  with h obtain n where x: "x = Some (VNum n)" and r: "in_range n lo hi"
    by (auto split: option.splits bson.splits)
  from r have nn: "lo \<noteq> NaN" "hi \<noteq> NaN" by (auto simp: in_range_def split: jsnum.splits)
  from f x have "pt = PNumber \<or> pt = PNone" by (cases pt) simp_all
  with c CRange nn have "k = KNumRange lo hi" by (auto simp: cast_cond_def cast_range_def)
  with x r show ?thesis by simp
next
  case (CRegex p)
  with h obtain s where x: "x = Some (VStr s)"
    by (auto split: option.splits bson.splits)
  from c CRegex have "k = KRegex p"
    by (auto simp: cast_cond_def split: ptype.splits)
  with h CRegex show ?thesis by simp
next
  case (CEq v)
  with h have x: "x = Some v" by simp
  from f x have "cast_value num h pt v = Inr v" by (simp add: cast_value_fits)
  with c CEq have "k = KEq v" by (simp add: cast_cond_def)
  with x show ?thesis by (simp add: eq_holds_same)
qed

lemma matches_cast:
  assumes "matches rx flat_fld flt f" "tidy f" "cast_filter num h flat_path flt = Inr k"
  shows "kmatches rx flat_fld k f"
  using assms(1,3)
proof (induction flt arbitrary: k)
  case Nil
  then show ?case by (simp add: kmatches_def)
next
  case (Cons kc flt)
  from Cons.prems(1) have hd: "holds rx (snd kc) (flat_fld f (fst kc))"
    and rest: "matches rx flat_fld flt f"
    by (simp_all add: matches_def)
  show ?case
  proof (cases "h_strict h \<and> flat_path (fst kc) = PNone")
    case True
    with Cons.prems(2) have "cast_filter num h flat_path flt = Inr k" by simp
    from Cons.IH [OF rest this] show ?thesis .
  next
    case False
    with Cons.prems(2) obtain c cs where
      c: "cast_cond num h (flat_path (fst kc)) (snd kc) = Inr c"
      and cs: "cast_filter num h flat_path flt = Inr cs" and k: "k = (fst kc, c) # cs"
      by (auto split: sum.splits)
    from holds_cast [OF hd fits_flat_fld [OF assms(2)] c] Cons.IH [OF rest cs] k
    show ?thesis by (simp add: kmatches_def)
  qed
qed

lemma length_filter_mono:
  assumes "\<And>x. x \<in> set xs \<Longrightarrow> P x \<Longrightarrow> Q x"
  shows "length (filter P xs) \<le> length (filter Q xs)"
  using assms by (induction xs) auto

lemma flat_count_at_least:
  assumes c: "flat_count num h rx d flt = Inr T" and t: "list_all tidy (flats d)"
  shows "length (filter (matches rx flat_fld flt) (flats d)) \<le> T"
proof -
  from c obtain k where k: "cast_filter num h flat_path flt = Inr k"
    and T: "T = length (filter (kmatches rx flat_fld k) (flats d))"
    by (auto simp: flat_count_def split: sum.splits if_splits)
  have "length (filter (matches rx flat_fld flt) (flats d))
        \<le> length (filter (kmatches rx flat_fld k) (flats d))"
  proof (rule length_filter_mono)
    fix f assume "f \<in> set (flats d)" and m: "matches rx flat_fld flt f"
    with t have "tidy f" by (simp add: list_all_iff)
    from matches_cast [OF m this k] show "kmatches rx flat_fld k f" .
  qed
  with T show ?thesis by simp
qed

section \<open>The total count of the user listing\<close>

lemma dec_num_1: "dec_num ''1'' = Num (Fin 1)"
  by (simp add: dec_num_def is_digit_def)

lemma dec_num_5: "dec_num ''5'' = Num (Fin 5)"
  by (simp add: dec_num_def is_digit_def)

lemma bounds_1_5: "bounds_of dec_num ''1-5'' = (Num (Fin 1), Num (Fin 5))"
  by (simp add: bounds_of_def dec_num_1 dec_num_5)

lemma match_flatsCount_only:
  "build_match num now [(''flatsCount'', ''1-5'')] = \<lparr>ms_role = None, ms_birthDate = None\<rparr>"
  by (simp add: build_match_def truthy_def)

lemma empty_match_stage: "user_matches \<lparr>ms_role = None, ms_birthDate = None\<rparr> u"
  by (simp add: user_matches_def)

lemma flatsCount_stage_ex:
  "flatsCount_stage dec_num [(''flatsCount'', ''1-5'')] [add_fields now ana, add_fields now dan]
   = [add_fields now dan]"
  by (simp add: flatsCount_stage_def truthy_def bounds_1_5 add_fields_def ana_def dan_def
      in_range_def x_le_def)

lemma users_unpaginated_flatsCount:
  "users_unpaginated dec_num now ex_db [(''flatsCount'', ''1-5'')] [(''createdAt'', - 1)]
   = [project_user (add_fields now dan)]"
  by (simp add: users_unpaginated_def match_flatsCount_only empty_match_stage users_ex_db
      flatsCount_stage_ex sort_stage_single)

text \<open>
  Claim C1, at the request \<^verbatim>\<open>GET /users/allUsers?flatsCount=1-5\<close> on a store of two
  users, one with no flat and one with two flats: the full result of the query is the one
  user with two flats, and the response reports \<open>totalCount\<close> 2. The count is taken with
  the first match stage only, which does not hold the \<open>flatsCount\<close> filter.
\<close>

theorem getAllUsers_totalCount_ignores_flatsCount:
  "getAllUsers dec_num leap_day ex_db [(''flatsCount'', ''1-5'')]
   = Listing (Num (Fin 1)) (Num (Fin 100000)) 2 1 [project_user (add_fields leap_day dan)]"
  by (simp add: getAllUsers_def rest_filters_def sort_spec_def user_aggregate_def sort_ok_def
      default_window as_count_0 as_count_default users_unpaginated_flatsCount
      match_flatsCount_only user_count_def dates_valid_def empty_match_stage users_ex_db)

section \<open>The age filter on a leap day\<close>

lemma dec_num_19: "dec_num ''19'' = Num (Fin 19)"
  by (simp add: dec_num_def is_digit_def)

lemma dec_num_30: "dec_num ''30'' = Num (Fin 30)"
  by (simp add: dec_num_def is_digit_def)

lemma bounds_19_30: "bounds_of dec_num ''19-30'' = (Num (Fin 19), Num (Fin 30))"
  by (simp add: bounds_of_def dec_num_19 dec_num_30)

lemma new_date_1994: "js_new_date (Num (Fin 1994)) 2 29 = Some (1994, 3, 1, 0)"
  by (simp add: js_new_date_def days_in_month_def leap_year_def Let_def)

lemma new_date_2005: "js_new_date (Num (Fin 2005)) 2 29 = Some (2005, 3, 1, 0)"
  by (simp add: js_new_date_def days_in_month_def leap_year_def Let_def)

lemma match_age_19_30:
  "build_match dec_num leap_day [(''age'', ''19-30'')] =
   \<lparr>ms_role = None, ms_birthDate = Some (Some (1994, 3, 1, 0), Some (2005, 3, 1, 0))\<rparr>"
  by (simp add: build_match_def truthy_def leap_day_def bounds_19_30 new_date_1994 new_date_2005)

lemma dates_valid_age_19_30: "dates_valid (build_match dec_num leap_day [(''age'', ''19-30'')])"
  by (simp add: match_age_19_30 dates_valid_def)

lemma ana_in_window: "user_matches (build_match dec_num leap_day [(''age'', ''19-30'')]) ana"
  by (simp add: match_age_19_30 user_matches_def ana_def)

lemma dan_not_in_window: "\<not> user_matches (build_match dec_num leap_day [(''age'', ''19-30'')]) dan"
  by (simp add: match_age_19_30 user_matches_def dan_def)

lemma age_ana_leap_day: "age (add_fields leap_day ana) = 18"
  by (simp add: add_fields_def age_expr_def leap_day_def ana_def)

lemma users_unpaginated_age:
  "users_unpaginated dec_num leap_day ex_db [(''age'', ''19-30'')] [(''createdAt'', - 1)]
   = [project_user (add_fields leap_day ana)]"
  by (simp add: users_unpaginated_def ana_in_window dan_not_in_window users_ex_db
      flatsCount_stage_def truthy_def sort_stage_single)

lemma getAllUsers_age_19_30:
  "getAllUsers dec_num leap_day ex_db [(''age'', ''19-30'')]
   = Listing (Num (Fin 1)) (Num (Fin 100000)) 1 1 [project_user (add_fields leap_day ana)]"
  by (simp add: getAllUsers_def Let_def rest_filters_def sort_spec_def user_aggregate_def
      sort_ok_def default_window as_count_0 as_count_default users_unpaginated_age
      user_count_def dates_valid_age_19_30 ana_in_window dan_not_in_window users_ex_db)

text \<open>
  Claim C3, at the request \<^verbatim>\<open>GET /users/allUsers?age=19-30\<close> made on 29 February 2024:
  the upper date bound \<^verbatim>\<open>new Date(2005, 1, 29)\<close> is 1 March 2005, so a user born on
  1 March 2005 is returned, and the age the response gives for that user is 18, outside
  the interval from 19 to 30.
\<close>

theorem age_range_returns_age_18:
  "map s_age (l_data (getAllUsers dec_num leap_day ex_db [(''age'', ''19-30'')])) = [18]"
  by (simp add: getAllUsers_age_19_30 project_user_def age_ana_leap_day)

section \<open>The city filter with a hyphen\<close>

lemma range_not_string: "\<not> holds rx (range_of num v) (Some (VStr s))"
  by (simp add: range_of_def split: list.splits)


lemma build_cond_city_hyphen: "build_cond num ''city'' ''Alba-Iulia'' = range_of num ''Alba-Iulia''"
  by (simp add: build_cond_def)

lemma build_cond_city_space:
  "build_cond num ''city'' ''Alba Iulia'' = CRegex (''Alba'' @ sep_class @ ''Iulia'')"
  by (simp add: build_cond_def is_sep_def is_space_def)

lemma range_of_Alba_Iulia:
  assumes "num ''Alba'' = NaN" "num ''Iulia'' = NaN"
  shows "range_of num ''Alba-Iulia'' = CRange NaN NaN"
  using assms by (simp add: range_of_def)

lemma str_bound_NaN: "str_bound h tr NaN = ''NaN''"
  by (simp add: str_bound_def set_string_def trim_def is_space_def)

lemma cast_city_NaN_range:
  "cast_filter num h flat_path [(''city'', CRange NaN NaN)] = Inr [(''city'', KStrRange ''NaN'' ''NaN'')]"
  by (simp add: cast_cond_def cast_range_def flat_path_def str_bound_NaN)

lemma no_city_NaN:
  "\<not> kmatches rx flat_fld [(''city'', KStrRange ''NaN'' ''NaN'')] studio"
  "\<not> kmatches rx flat_fld [(''city'', KStrRange ''NaN'' ''NaN'')] loft"
  by (simp_all add: kmatches_def flat_fld_def studio_def loft_def)

lemma flat_count_city_NaN_range:
  "flat_count num h rx ex_db [(''city'', CRange NaN NaN)] = Inr 0"
  unfolding flat_count_def cast_city_NaN_range
  by (simp add: kfilter_ok_def ex_db_def no_city_NaN)

lemma flat_aggregate_city_NaN_range:
  "flat_aggregate rx ex_db [(''city'', CRange NaN NaN)] [(''createdAt'', - 1)]
     (Num (Fin 0)) (Num (Fin 100000)) = Inr []"
  by (simp add: flat_aggregate_def filter_ok_def sort_ok_def as_count_0 as_count_default
      flats_unpaginated_def matches_def ex_db_def studio_def loft_def flat_fld_def
      lookup_unwind_def sort_stage_def sort1_def)

text \<open>
  Claim C7, at the request \<^verbatim>\<open>GET /flats?city=Alba-Iulia\<close> on a store that holds a flat
  of the city \<open>Alba-Iulia\<close>: the value contains a hyphen, so the range branch of the
  filter loop is taken before the city branch, the condition is a numeric range, and the
  response holds no flat. The count casts the two bounds, which are \<open>NaN\<close>, to the
  string \<^verbatim>\<open>NaN\<close> of the string path \<open>city\<close> and counts no flat either. This is so for
  every \<^verbatim>\<open>Number\<close> that gives \<open>NaN\<close> for the two words, every host and every
  regular-expression engine.
\<close>

theorem city_hyphen_query_returns_nothing:
  assumes "num ''Alba'' = NaN" "num ''Iulia'' = NaN"
  shows "getAllFlats num h rx ex_db [(''city'', ''Alba-Iulia'')]
         = Listing (Num (Fin 1)) (Num (Fin 100000)) 0 0 []"
  by (simp add: getAllFlats_def build_filter_def rest_filters_def build_cond_city_hyphen
      range_of_Alba_Iulia [OF assms] sort_spec_def default_window
      flat_aggregate_city_NaN_range flat_count_city_NaN_range)

theorem city_hyphen_query_returns_nothing_witness:
  "\<forall>h rx. dec_num ''Alba'' = NaN \<and> dec_num ''Iulia'' = NaN \<and>
     getAllFlats dec_num h rx ex_db [(''city'', ''Alba-Iulia'')]
     = Listing (Num (Fin 1)) (Num (Fin 100000)) 0 0 []"
proof (intro allI)
  fix h rx
  have a: "dec_num ''Alba'' = NaN" and b: "dec_num ''Iulia'' = NaN"
    by (simp_all add: dec_num_def is_digit_def)
  from city_hyphen_query_returns_nothing [OF a b, of h rx] a b
  show "dec_num ''Alba'' = NaN \<and> dec_num ''Iulia'' = NaN \<and>
     getAllFlats dec_num h rx ex_db [(''city'', ''Alba-Iulia'')]
     = Listing (Num (Fin 1)) (Num (Fin 100000)) 0 0 []"
    by simp
qed

section \<open>Identifiers outside the store's format\<close>

lemma getFlatById_rejects_before_query:
  "\<not> isValid i \<Longrightarrow> getFlatById isValid d i = (Fail 400 ''Invalid flat ID format'', [])"
  by (simp add: getFlatById_def)

lemma getFlatById_not_found_after_query:
  "isValid i \<Longrightarrow> find (\<lambda>f. f_id f = i) (flats d) = None \<Longrightarrow>
   getFlatById isValid d i = (Fail 404 ''Flat not found'', [FlatFindById i])"
  by (simp add: getFlatById_def flat_findById_def)

lemma getUserById_always_queries: "snd (getUserById isValid d i) = [UserFindById i]"
  by (simp add: getUserById_def split: sum.splits option.splits)

text \<open>
  Claim C2, at the request \<^verbatim>\<open>GET /users/getUserById/abc\<close>: \<^verbatim>\<open>getUserById\<close> has no
  check of the identifier's format. It passes \<open>abc\<close> to \<^verbatim>\<open>User.findById\<close>, the query
  fails with a cast error, and the response is the 500 of the \<^verbatim>\<open>catch\<close> block;
  \<^verbatim>\<open>getFlatById\<close> answers 400 for the same identifier with no query issued.
\<close>

theorem getUserById_queries_invalid_id:
  "getUserById is_hex24 ex_db ''abc''
   = (Fail 500 ''Error retrieving user'', [UserFindById ''abc''])"
  by (simp add: getUserById_def user_findById_def is_hex24_def)

section \<open>The derived age\<close>

lemma validator_age_eq: "validator_age today dob = age_expr today dob"
  by (auto simp: validator_age_def age_expr_def Let_def split: prod.splits)

lemma age_expr_whole_years:
  "(age_expr now b = A) = (anniversary b A \<le> day_of now \<and> day_of now < anniversary b (A + 1))"
  by (cases now; cases b) (auto simp: age_expr_def anniversary_def day_of_def)

text \<open>
  Claim C4: for every user and every current date, the derived age is the number of
  whole years from the birth date to the current date: it is \<open>A\<close> exactly when the
  current day is on or after the anniversary \<open>A\<close> of the birth date and before the
  anniversary \<open>A + 1\<close>, calendar days compared by year, then month, then day. The age
  of the \<open>birthDate\<close> validator of the schema is the same number. In particular, on the
  day \<open>(Y, M, D)\<close> a user born on the same month and day \<open>N\<close> years earlier has the
  age \<open>N\<close>, and a user born on the calendar day after that date has the age \<open>N - 1\<close>.
\<close>

theorem derived_age_calendar_correct:
  "(age (add_fields now v) = A)
     = (anniversary (birthDate v) A \<le> day_of now \<and>
        day_of now < anniversary (birthDate v) (A + 1)) \<and>
   (validator_age now b = A)
     = (anniversary b A \<le> day_of now \<and> day_of now < anniversary b (A + 1)) \<and>
   age (add_fields (Y, M, D, t) (u\<lparr>birthDate := (Y - N, M, D, t')\<rparr>)) = N \<and>
   age (add_fields (Y, M, D, t) (u\<lparr>birthDate := next_day (Y - N, M, D, t')\<rparr>)) = N - 1 \<and>
   validator_age (Y, M, D, t) (Y - N, M, D, t') = N \<and>
   validator_age (Y, M, D, t) (next_day (Y - N, M, D, t')) = N - 1"
proof -
  have "(age (add_fields now v) = A)
     = (anniversary (birthDate v) A \<le> day_of now \<and>
        day_of now < anniversary (birthDate v) (A + 1))"
    using age_expr_whole_years [of now "birthDate v" A] by (simp add: add_fields_def)
  moreover have "(validator_age now b = A)
     = (anniversary b A \<le> day_of now \<and> day_of now < anniversary b (A + 1))"
    using age_expr_whole_years [of now b A] by (simp add: validator_age_eq)
  moreover have
    "age (add_fields (Y, M, D, t) (u\<lparr>birthDate := (Y - N, M, D, t')\<rparr>)) = N \<and>
     age (add_fields (Y, M, D, t) (u\<lparr>birthDate := next_day (Y - N, M, D, t')\<rparr>)) = N - 1 \<and>
     validator_age (Y, M, D, t) (Y - N, M, D, t') = N \<and>
     validator_age (Y, M, D, t) (next_day (Y - N, M, D, t')) = N - 1"
    by (simp add: add_fields_def age_expr_def validator_age_def next_day_def)
  ultimately show ?thesis by (simp only: simp_thms)
qed

section \<open>Messages on a listing\<close>

lemma find_push_message:
  "find (\<lambda>f. f_id f = fid) (push_message fid mid fs)
   = map_option (\<lambda>f. f\<lparr>messages := messages f @ [mid]\<rparr>) (find (\<lambda>f. f_id f = fid) fs)"
  by (induction fs) auto

lemma studio_found: "flat_findById is_hex24 ex_db fid1 = Inr (Some studio)"
  by (simp add: flat_findById_def is_hex24_def is_hex_def fid1_def ex_db_def studio_def)

lemma trim_hi: "trim ''hi'' = ''hi''"
  by (simp add: trim_def is_space_def)

text \<open>
  Claim C9: on a listing that exists, a sender who is the owner gets the 403 response and
  the store is unchanged (no message record, the same message list of the listing); any
  other sender with a content of 1 to 1000 characters after trimming gets the 201
  response with the new message, the message is appended to the messages of the store
  and its identifier to the message list of the listing.
\<close>

theorem addMessage_owner_rejected_others_create:
  assumes "flat_findById isValid d fid = Inr (Some f)"
  shows "(owner f = sid \<longrightarrow>
            addMessage isValid mid d fid sid c
            = (Fail 403 ''Owners cannot send messages to their own flats'', d)) \<and>
         (owner f \<noteq> sid \<longrightarrow> 1 \<le> length (trim txt) \<longrightarrow> length (trim txt) \<le> 1000 \<longrightarrow>
            (let m = \<lparr>m_id = mid, content = trim txt, flatId = fid, senderId = sid\<rparr>;
                 r = addMessage isValid mid d fid sid (Some txt)
             in fst r = Reply 201 m \<and> msgs (snd r) = msgs d @ [m] \<and> users (snd r) = users d \<and>
                flat_findById isValid (snd r) fid
                = Inr (Some (f\<lparr>messages := messages f @ [mid]\<rparr>))))"
  using assms
  by (auto simp: addMessage_def message_create_def Let_def flat_findById_def find_push_message
      split: if_splits)

theorem addMessage_owner_rejected_others_create_witness:
  "flat_findById is_hex24 ex_db fid1 = Inr (Some studio) \<and>
   owner studio = uid2 \<and>
   addMessage is_hex24 mid1 ex_db fid1 uid2 (Some ''hi'')
     = (Fail 403 ''Owners cannot send messages to their own flats'', ex_db) \<and>
   owner studio \<noteq> uid1 \<and> 1 \<le> length (trim ''hi'') \<and> length (trim ''hi'') \<le> 1000 \<and>
   fst (addMessage is_hex24 mid1 ex_db fid1 uid1 (Some ''hi''))
     = Reply 201 \<lparr>m_id = mid1, content = ''hi'', flatId = fid1, senderId = uid1\<rparr> \<and>
   msgs (snd (addMessage is_hex24 mid1 ex_db fid1 uid1 (Some ''hi'')))
     = [\<lparr>m_id = mid1, content = ''hi'', flatId = fid1, senderId = uid1\<rparr>]"
proof -
  have own: "owner studio = uid2" by (simp add: studio_def)
  have other: "owner studio \<noteq> uid1" by (simp add: studio_def uid1_def uid2_def)
  have len: "1 \<le> length (trim ''hi'')" "length (trim ''hi'') \<le> 1000"
    by (simp_all add: trim_hi)
  have empty: "msgs ex_db = []" by (simp add: ex_db_def)
  from addMessage_owner_rejected_others_create
         [OF studio_found, of uid2 mid1 "Some ''hi''" "''hi''"] own
  have a: "addMessage is_hex24 mid1 ex_db fid1 uid2 (Some ''hi'')
     = (Fail 403 ''Owners cannot send messages to their own flats'', ex_db)" by simp
  from addMessage_owner_rejected_others_create
         [OF studio_found, of uid1 mid1 "Some ''hi''" "''hi''"] other len
  have b: "fst (addMessage is_hex24 mid1 ex_db fid1 uid1 (Some ''hi''))
     = Reply 201 \<lparr>m_id = mid1, content = ''hi'', flatId = fid1, senderId = uid1\<rparr> \<and>
   msgs (snd (addMessage is_hex24 mid1 ex_db fid1 uid1 (Some ''hi'')))
     = [\<lparr>m_id = mid1, content = ''hi'', flatId = fid1, senderId = uid1\<rparr>]"
    by (simp add: Let_def trim_hi empty)
  from studio_found own a other len b show ?thesis by simp
qed

section \<open>The role of a new account\<close>

lemma eva_created:
  "user_create tag_hash accept_all uid3 leap_day ex_db eva_body
   = Inr (eva, ex_db\<lparr>users := users ex_db @ [eva]\<rparr>)"
  by (simp add: user_create_def new_user_def eva_body_def accept_all_def pre_save_def
      tag_hash_def users_ex_db ana_def dan_def Let_def eva_def)

text \<open>
  Claim C10: whenever \<^verbatim>\<open>User.create\<close> succeeds on a registration body, the user it
  appends to the store has the role \<open>user\<close>, whatever role the body supplied; and the
  pre-save hook, run on a new document whose password is modified (as it is for every new
  document that passed validation), leaves the role \<open>user\<close>.
\<close>

theorem new_account_has_role_user:
  "user_create hash valid uid now d b = Inr (u, d1) \<Longrightarrow>
   role u = ''user'' \<and> users d1 = users d @ [u] \<and> role (pre_save hash True True v) = ''user''"
  by (auto simp: user_create_def new_user_def pre_save_def Let_def
      split: option.splits if_splits prod.splits)

theorem new_account_has_role_user_witness:
  "user_create tag_hash accept_all uid3 leap_day ex_db eva_body
     = Inr (eva, ex_db\<lparr>users := users ex_db @ [eva]\<rparr>) \<and>
   b_role eva_body = Some ''admin'' \<and> role eva = ''user''"
  using new_account_has_role_user [OF eva_created] eva_created by (simp add: eva_body_def)

section \<open>Walking the pages\<close>




section \<open>Sorting by one field, ascending and descending\<close>

lemma split_on_none: "c \<notin> set s \<Longrightarrow> split_on c s = [s]"
  by (induction s) auto







































section \<open>Unknown fields and malformed ranges\<close>

lemma split_on_two:
  assumes "c \<notin> set a" "c \<notin> set b"
  shows "split_on c (a @ c # b) = [a, b]"
  using assms by (induction a) (auto simp: split_on_none)

lemma range_of_two:
  assumes "CHR ''-'' \<notin> set mn" "CHR ''-'' \<notin> set mx"
  shows "range_of num (mn @ ''-'' @ mx) = CRange (num mn) (num mx)"
  using split_on_two [OF assms] by (simp add: range_of_def)

lemma build_cond_range:
  assumes "CHR '','' \<notin> set mn" "CHR '','' \<notin> set mx" "CHR ''-'' \<notin> set mn" "CHR ''-'' \<notin> set mx"
  shows "build_cond num k (mn @ ''-'' @ mx) = CRange (num mn) (num mx)"
  using assms range_of_two [OF assms(3,4), of num] by (simp add: build_cond_def)



lemma build_cond_plain:
  assumes "k \<notin> {''city'', ''title'', ''address''}" "CHR '','' \<notin> set v" "CHR ''-'' \<notin> set v"
  shows "build_cond num k v
         = CEq (if v = ''true'' \<or> v = ''false'' then VBool (v = ''true'') else coerce num v)"
  using assms by (auto simp: build_cond_def)











section \<open>What the range filters and the count of the flat listing guarantee\<close>

text \<open>
  The numeric range of the flat listing and the \<open>flatsCount\<close> range of the user listing
  only return records within the bounds. The \<open>totalCount\<close> of the flat listing is at
  least the length of the full result, and it can be more: the count casts a string to
  the identifier of an identifier path and then matches records that the pipeline,
  which compares the string itself, does not.
\<close>

lemma set_sort1: "set (sort1 fld fo xs) = set xs"
  by (simp add: sort1_def)

lemma set_sort_stage: "set (sort_stage fld spec xs) = set xs"
  unfolding sort_stage_def by (induction spec) (simp_all add: set_sort1)

lemma lookup_unwind_fst: "x \<in> set (lookup_unwind us fs) \<Longrightarrow> fst x \<in> set fs"
  by (auto simp: lookup_unwind_def)

lemma flats_unpaginated_match:
  assumes "x \<in> set (flats_unpaginated rx d flt spec)"
  shows "fst x \<in> set (flats d)" "matches rx flat_fld flt (fst x)"
  using lookup_unwind_fst [of x "users d" "sort_stage flat_fld spec (filter (matches rx flat_fld flt) (flats d))"]
    assms
  by (simp_all add: flats_unpaginated_def set_sort_stage)

lemma getAllFlats_data_subset:
  assumes "getAllFlats num h rx d q = Listing pg lm T c ds" "x \<in> set ds"
  shows "x \<in> set (flats_unpaginated rx d (build_filter num (rest_filters q)) (sort_spec q))"
  using assms
  by (auto simp: getAllFlats_def flat_aggregate_def Let_def
      split: if_splits option.splits sum.splits dest: in_set_takeD in_set_dropD)

lemma flat_range_filter_sound:
  assumes ok: "getAllFlats num h rx d q = Listing pg lm T c ds"
    and mem: "(k, mn @ ''-'' @ mx) \<in> set (rest_filters q)"
    and seg: "CHR '','' \<notin> set mn" "CHR '','' \<notin> set mx" "CHR ''-'' \<notin> set mn" "CHR ''-'' \<notin> set mx"
    and x: "x \<in> set ds"
  shows "\<exists>n. flat_fld (fst x) k = Some (VNum n) \<and> in_range n (num mn) (num mx)"
proof -
  let ?flt = "build_filter num (rest_filters q)"
  from getAllFlats_data_subset [OF ok x] have "matches rx flat_fld ?flt (fst x)"
    by (rule flats_unpaginated_match)
  moreover from mem have "(k, build_cond num k (mn @ ''-'' @ mx)) \<in> set ?flt"
    by (force simp: build_filter_def)
  ultimately have "holds rx (build_cond num k (mn @ ''-'' @ mx)) (flat_fld (fst x) k)"
    by (auto simp: matches_def list_all_iff)
  then show ?thesis
    unfolding build_cond_range [OF seg]
    by (auto split: option.splits bson.splits)
qed

lemma getAllUsers_data_subset:
  assumes "getAllUsers num now d q = Listing pg lm T c ds" "x \<in> set ds"
  shows "x \<in> set (users_unpaginated num now d (rest_filters q) (sort_spec q))"
  using assms
  by (auto simp: getAllUsers_def user_aggregate_def Let_def
      split: if_splits option.splits sum.splits dest: in_set_takeD in_set_dropD)

lemma flatsCount_filter_sound:
  assumes ok: "getAllUsers num now d q = Listing pg lm T c ds"
    and fc: "truthy (rest_filters q) ''flatsCount'' = Some v"
    and x: "x \<in> set ds"
  shows "in_range (Fin (of_nat (s_publishedFlatsCount x)))
           (fst (bounds_of num v)) (snd (bounds_of num v))"
  using getAllUsers_data_subset [OF ok x] fc
  by (auto simp: users_unpaginated_def set_sort_stage flatsCount_stage_def project_user_def)

lemma getAllFlats_totalCount_at_least:
  assumes ok: "getAllFlats num h rx d q = Listing pg lm T c ds"
    and ids: "distinct (map u_id (users d))"
    and setters: "list_all tidy (flats d)"
  shows "length (flats_unpaginated rx d (build_filter num (rest_filters q)) (sort_spec q)) \<le> T"
proof -
  let ?flt = "build_filter num (rest_filters q)"
  have "length (flats_unpaginated rx d ?flt (sort_spec q))
        \<le> length (filter (matches rx flat_fld ?flt) (flats d))"
    by (rule length_flats_unpaginated [OF ids])
  also have "\<dots> \<le> T"
    by (rule flat_count_at_least [OF getAllFlats_Listing(3) [OF ok] setters])
  finally show ?thesis .
qed

lemma owner_filter_counts_more:
  assumes "h_oid h uid2 = Some uid2"
  shows "getAllFlats dec_num h no_rx ex_db [(''owner'', uid2)]
         = Listing (Num (Fin 1)) (Num (Fin 100000)) 2 0 []"
proof -
  let ?q = "[(''owner'', uid2)]"
  have nn: "dec_num uid2 = NaN" by (simp add: dec_num_def uid2_def is_digit_def)
  have "build_cond dec_num ''owner'' uid2
        = CEq (if uid2 = ''true'' \<or> uid2 = ''false'' then VBool (uid2 = ''true'')
               else coerce dec_num uid2)"
    by (rule build_cond_plain) (simp_all add: uid2_def)
  moreover have "uid2 \<noteq> ''true''" "uid2 \<noteq> ''false''" by (simp_all add: uid2_def)
  ultimately have bc: "build_cond dec_num ''owner'' uid2 = CEq (VStr uid2)"
    by (simp add: coerce_def nn)
  have bf: "build_filter dec_num (rest_filters ?q) = [(''owner'', CEq (VStr uid2))]"
    by (simp add: build_filter_def rest_filters_def bc)
  have agg: "flat_aggregate no_rx ex_db [(''owner'', CEq (VStr uid2))] [(''createdAt'', - 1)]
               (Num (Fin 0)) (Num (Fin 100000)) = Inr []"
    by (simp add: flat_aggregate_def filter_ok_def sort_ok_def as_count_0 as_count_default
        flats_unpaginated_def matches_def ex_db_def studio_def loft_def flat_fld_def
        lookup_unwind_def sort_stage_def sort1_def)
  have cf: "cast_filter dec_num h flat_path [(''owner'', CEq (VStr uid2))]
            = Inr [(''owner'', KEq (VId uid2))]"
    by (simp add: cast_cond_def cast_value_def cast_oid_def new_oid_def flat_path_def assms)
  have cnt: "flat_count dec_num h no_rx ex_db [(''owner'', CEq (VStr uid2))] = Inr 2"
    unfolding flat_count_def cf
    by (simp add: kfilter_ok_def kmatches_def eq_holds_def ex_db_def studio_def loft_def
        flat_fld_def)
  show ?thesis
    by (simp add: getAllFlats_def bf sort_spec_def default_window agg cnt)
qed

text \<open>
  The count of the user listing throws on a date bound that is an invalid date, as the
  age filter builds it from a value with one segment: the request
  \<^verbatim>\<open>GET /users/allUsers?age=30\<close> is answered 500 after the pipeline has run.
\<close>

lemma age_without_upper_bound_fails:
  "getAllUsers dec_num leap_day ex_db [(''age'', ''30'')] = Failed 500 ''Error retrieving users''"
proof -
  let ?q = "[(''age'', ''30'')]"
  have rf: "rest_filters ?q = ?q" by (simp add: rest_filters_def)
  have "bounds_of dec_num ''30'' = (Num (Fin 30), NaN)"
    by (simp add: bounds_of_def dec_num_30)
  then have "ms_birthDate (build_match dec_num leap_day ?q)
             = Some (None, js_new_date (Num (Fin 1994)) 2 29)"
    by (simp add: build_match_def truthy_def leap_day_def js_new_date_def)
  then have dv: "\<not> dates_valid (build_match dec_num leap_day ?q)"
    by (simp add: dates_valid_def)
  have "\<exists>us. user_aggregate dec_num leap_day ex_db ?q (sort_spec ?q) (skip_of dec_num ?q)
               (limit_of dec_num ?q) = Inr us"
    by (simp add: user_aggregate_def sort_ok_def sort_spec_def default_window as_count_0
        as_count_default)
  then obtain us where "user_aggregate dec_num leap_day ex_db ?q (sort_spec ?q)
      (skip_of dec_num ?q) (limit_of dec_num ?q) = Inr us" by blast
  with dv show ?thesis
    unfolding getAllUsers_def Let_def rf by (simp add: user_count_def)
qed


end
